theory Spec2Isabelle
  imports Complex_Main
begin

chapter \<open>A shallow embedding of the dispatch, triage, categorizer, medic-matcher and
  landing-zone engines\<close>

text \<open>
  Conventions of the embedding.

  \<^item> A Python \<open>float\<close> that takes part in arithmetic is a binary64 value, \<open>float64\<close> below: a
    finite value, an infinity or NaN. Addition, subtraction, multiplication and division
    round the exact result to the nearest binary64 value, a tie going to the even
    neighbour; comparisons are the IEEE ones, false on NaN. A float that is only compared
    with a literal (the voice stress score of the triage scorer) is its real value.
    Functions of the C mathematics library (\<open>pow\<close>, \<open>sin\<close>, \<open>cos\<close>, \<open>atan2\<close>), whose results are not
    fixed by the language, are parameters of the model. Python \<open>int\<close> is \<^typ>\<open>int\<close>.
  \<^item> Python \<open>str\<close> is \<^typ>\<open>string\<close>; characters are 8-bit code points.
  \<^item> A Python \<open>dict\<close> that is used as a structure is a record; a key that the code reads with
    \<open>d.get(k, default)\<close> or that may be absent is an \<open>option\<close> field, \<open>None\<close> meaning that the key
    is absent.
  \<^item> Every \<open>raise\<close> is a value \<open>Inl e\<close> of a sum type.
  \<^item> An f-string that formats numbers is a constructor that carries the formatted values.
\<close>

datatype py_error = KeyError | ValueError | IndexError | OverflowError | TypeError

section \<open>Binary64 arithmetic\<close>

text \<open>\<open>Fin x\<close> is the finite binary64 value \<open>x\<close>; the sign of a zero is not kept, no modelled
  operation observes it.\<close>

datatype float64 = Fin real | PInf | NInf | NaN

text \<open>Rounding to the nearest integer, a tie going to the even neighbour.\<close>

definition round_half_even :: "real \<Rightarrow> int" where
  "round_half_even x =
    (let f = \<lfloor>x\<rfloor>; r = x - of_int f
     in if r < 1 / 2 then f
        else if r > 1 / 2 then f + 1
        else if even f then f else f + 1)"

text \<open>
  \<open>round64 x\<close> is the binary64 value nearest to the real \<open>x\<close>. The exponent of \<open>x\<close> is
  \<open>\<lfloor>log 2 \<bar>x\<bar>\<rfloor>\<close>, at least \<open>-1022\<close> (below that the values are subnormal and equally spaced); the
  significand has 53 bits, so the spacing of the binary64 values around \<open>x\<close> is 2 to the
  exponent minus 52; a result of magnitude \<open>2 ^ 1024\<close> or more is an infinity.
\<close>

definition binade :: "real \<Rightarrow> int" where
  "binade x = max \<lfloor>log 2 \<bar>x\<bar>\<rfloor> (- 1022)"

definition round64 :: "real \<Rightarrow> float64" where
  "round64 x =
    (if x = 0 then Fin 0
     else
       let q = power_int 2 (binade x - 52);
           y = of_int (round_half_even (x / q)) * q
       in if \<bar>y\<bar> \<ge> 2 ^ 1024 then (if x > 0 then PInf else NInf) else Fin y)"

text \<open>A decimal literal of the source denotes the binary64 value nearest to it.\<close>

definition float_literal :: "real \<Rightarrow> float64" where
  "float_literal x = round64 x"

fun fneg :: "float64 \<Rightarrow> float64" where
  "fneg (Fin x) = Fin (- x)"
| "fneg PInf = NInf"
| "fneg NInf = PInf"
| "fneg NaN = NaN"

fun fadd :: "float64 \<Rightarrow> float64 \<Rightarrow> float64" where
  "fadd NaN b = NaN"
| "fadd a NaN = NaN"
| "fadd PInf NInf = NaN"
| "fadd NInf PInf = NaN"
| "fadd PInf b = PInf"
| "fadd a PInf = PInf"
| "fadd NInf b = NInf"
| "fadd a NInf = NInf"
| "fadd (Fin a) (Fin b) = round64 (a + b)"

definition fsub :: "float64 \<Rightarrow> float64 \<Rightarrow> float64" where
  "fsub a b = fadd a (fneg b)"

text \<open>The comparison \<open>a < b\<close> of two floats, and \<open>a > b\<close>, which is \<open>b < a\<close>.\<close>

fun flt :: "float64 \<Rightarrow> float64 \<Rightarrow> bool" where
  "flt NaN b = False"
| "flt a NaN = False"
| "flt (Fin a) (Fin b) = (a < b)"
| "flt PInf b = False"
| "flt a NInf = False"
| "flt NInf b = True"
| "flt a PInf = True"

definition fgt :: "float64 \<Rightarrow> float64 \<Rightarrow> bool" where
  "fgt a b = flt b a"

fun fabs :: "float64 \<Rightarrow> float64" where
  "fabs (Fin x) = Fin \<bar>x\<bar>"
| "fabs PInf = PInf"
| "fabs NInf = PInf"
| "fabs NaN = NaN"

fun fmul :: "float64 \<Rightarrow> float64 \<Rightarrow> float64" where
  "fmul NaN b = NaN"
| "fmul a NaN = NaN"
| "fmul (Fin a) (Fin b) = round64 (a * b)"
| "fmul PInf (Fin b) = (if b = 0 then NaN else if b > 0 then PInf else NInf)"
| "fmul NInf (Fin b) = (if b = 0 then NaN else if b > 0 then NInf else PInf)"
| "fmul (Fin a) PInf = (if a = 0 then NaN else if a > 0 then PInf else NInf)"
| "fmul (Fin a) NInf = (if a = 0 then NaN else if a > 0 then NInf else PInf)"
| "fmul PInf PInf = PInf"
| "fmul NInf NInf = PInf"
| "fmul PInf NInf = NInf"
| "fmul NInf PInf = NInf"

text \<open>Division of a float by a literal \<open>c\<close> of the source that is not zero (so that no
  \<open>ZeroDivisionError\<close> can be raised).\<close>

fun fdiv_by :: "float64 \<Rightarrow> real \<Rightarrow> float64" where
  "fdiv_by (Fin a) c = round64 (a / c)"
| "fdiv_by PInf c = (if c > 0 then PInf else NInf)"
| "fdiv_by NInf c = (if c > 0 then NInf else PInf)"
| "fdiv_by NaN c = NaN"

text \<open>True division \<open>a / c\<close> of two Python integers, \<open>c\<close> a literal that is not zero: the
  quotient rounded once; \<open>OverflowError\<close> when it is too large for a float.\<close>

definition int_truediv_by :: "int \<Rightarrow> int \<Rightarrow> py_error + float64" where
  "int_truediv_by a c =
    (case round64 (real_of_int a / real_of_int c) of
       Fin q \<Rightarrow> Inr (Fin q)
     | _ \<Rightarrow> Inl OverflowError)"

text \<open>\<open>max(0, x)\<close>: the builtin keeps its first argument unless \<open>x > 0\<close>.\<close>

definition py_max0 :: "float64 \<Rightarrow> float64" where
  "py_max0 x = (if fgt x (Fin 0) then x else Fin 0)"

text \<open>\<open>min(c, x)\<close> for a float literal \<open>c\<close>: the builtin keeps \<open>c\<close> unless \<open>x < c\<close>.\<close>

definition py_min_lit :: "float64 \<Rightarrow> float64 \<Rightarrow> float64" where
  "py_min_lit c x = (if flt x c then x else c)"

text \<open>
  \<open>round(x, ndigits)\<close> on a float, for \<open>ndigits\<close> from 0 on: a float that is not finite is
  returned as it is; a finite one is rounded, in its exact value, to \<open>ndigits\<close> decimals, a
  tie going to the even neighbour, and the float nearest to that decimal is returned. (For
  a binary64 argument the result is never out of range.)
\<close>

fun py_round :: "float64 \<Rightarrow> nat \<Rightarrow> float64" where
  "py_round (Fin x) ndigits =
     round64 (real_of_int (round_half_even (x * 10 ^ ndigits)) / 10 ^ ndigits)"
| "py_round PInf ndigits = PInf"
| "py_round NInf ndigits = NInf"
| "py_round NaN ndigits = NaN"

text \<open>
  \<open>v ** w\<close> for a float \<open>v\<close> and a literal \<open>w\<close> that is 2 or 0.5. Python answers NaN, an
  infinite or a zero base itself; for a negative base and the exponent 0.5 the result is a
  complex number, on which the \<open>round\<close> that follows in \<open>_calculate_distance\<close> raises
  \<open>TypeError\<close>; otherwise it calls the C library's \<open>pow\<close>, the parameter \<open>libm_pow\<close>, and raises
  \<open>OverflowError\<close> when that answers an infinity.
\<close>

definition py_pow :: "(real \<Rightarrow> real \<Rightarrow> float64) \<Rightarrow> float64 \<Rightarrow> real \<Rightarrow> py_error + float64" where
  "py_pow libm_pow v w =
    (case v of
       NaN \<Rightarrow> Inr NaN
     | PInf \<Rightarrow> Inr PInf
     | NInf \<Rightarrow> Inr PInf
     | Fin x \<Rightarrow>
         if x = 0 then Inr (Fin 0)
         else if x < 0 \<and> w \<noteq> 2 then Inl TypeError
         else (case libm_pow x w of
                 PInf \<Rightarrow> Inl OverflowError
               | NInf \<Rightarrow> Inl OverflowError
               | r \<Rightarrow> Inr r))"

text \<open>Sequencing of two computations that can raise.\<close>

definition bind_err :: "py_error + 'a \<Rightarrow> ('a \<Rightarrow> py_error + 'b) \<Rightarrow> py_error + 'b" where
  "bind_err m f = (case m of Inl e \<Rightarrow> Inl e | Inr x \<Rightarrow> f x)"

section \<open>Dispatch rule engine (\<open>src/dispatch_engine.py\<close>)\<close>

datatype ResponseMode = DOCTOR_DRONE | AMBULANCE | BOTH

datatype RuleType = SAFETY_FILTER | EMERGENCY_OVERRIDE | EFFICIENCY_OPTIMIZATION | DEFAULT

text \<open>The entries of \<open>reasons\<close>, one constructor per f-string or literal of \<open>dispatch\<close>.\<close>

datatype dispatch_reason =
    Weather_exceeds_safety float64 float64
  | Drone_operations_unsafe
  | Ground_eta_exceeds_harm float64 float64
  | Critical_simultaneous
  | Drone_arrival float64 float64
  | Drone_saves float64 float64
  | Ground_vs_drone_eta float64 float64
  | Dispatching_drone_and_ambulance
  | Ground_safe_and_sufficient
  | Weather_acceptable float64
  | Ground_eta_within_harm float64 float64
  | Savings_below_efficiency float64 float64

record DispatchResult =
  response_mode :: ResponseMode
  rule_triggered :: RuleType
  reasons :: "dispatch_reason list"
  weather_risk_pct :: float64
  harm_threshold_min :: float64
  ground_eta_min :: float64
  air_eta_min :: float64
  time_delta_min :: float64
  exceeds_weather :: bool
  exceeds_harm :: bool
  exceeds_efficiency :: bool
  confidence :: float64

text \<open>The two thresholds are binary64 values as they stand.\<close>

definition WEATHER_RISK_THRESHOLD :: float64 where
  "WEATHER_RISK_THRESHOLD = Fin 35"

definition EFFICIENCY_TIME_DELTA :: float64 where
  "EFFICIENCY_TIME_DELTA = Fin 10"

text \<open>\<open>dispatch\<close>: \<open>time_delta = ground_eta_min - air_eta_min\<close> is the rounded binary64
  difference, and the three tests are the float comparisons \<open>>\<close>.\<close>

definition dispatch :: "float64 \<Rightarrow> float64 \<Rightarrow> float64 \<Rightarrow> float64 \<Rightarrow> DispatchResult" where
  "dispatch weather harm ground air =
    (let time_delta = fsub ground air;
         x_weather = fgt weather WEATHER_RISK_THRESHOLD;
         x_harm = fgt ground harm;
         x_efficiency = fgt time_delta EFFICIENCY_TIME_DELTA;
         (mode, rule, rs, conf) =
           (if x_weather then
              (AMBULANCE, SAFETY_FILTER,
               [Weather_exceeds_safety weather WEATHER_RISK_THRESHOLD,
                Drone_operations_unsafe],
               Fin 1)
            else if x_harm then
              (BOTH, EMERGENCY_OVERRIDE,
               [Ground_eta_exceeds_harm ground harm,
                Critical_simultaneous,
                Drone_arrival air time_delta],
               float_literal 0.98)
            else if x_efficiency then
              (BOTH, EFFICIENCY_OPTIMIZATION,
               [Drone_saves time_delta EFFICIENCY_TIME_DELTA,
                Ground_vs_drone_eta ground air,
                Dispatching_drone_and_ambulance],
               float_literal 0.90)
            else
              (AMBULANCE, DEFAULT,
               [Ground_safe_and_sufficient,
                Weather_acceptable weather,
                Ground_eta_within_harm ground harm,
                Savings_below_efficiency time_delta EFFICIENCY_TIME_DELTA],
               float_literal 0.9))
     in \<lparr> response_mode = mode, rule_triggered = rule, reasons = rs,
          weather_risk_pct = weather, harm_threshold_min = harm,
          ground_eta_min = ground, air_eta_min = air,
          time_delta_min = time_delta,
          exceeds_weather = x_weather, exceeds_harm = x_harm,
          exceeds_efficiency = x_efficiency,
          confidence = conf \<rparr>)"

section \<open>Triage scorer (\<open>src/triage_engine.py\<close>)\<close>

definition RED_FLAGS :: "string set" where
  "RED_FLAGS =
    {''trouble_breathing'', ''choking'', ''turning_blue'', ''chest_pain_crushing'',
     ''unconscious'', ''not_responding'', ''seizure_now'', ''face_droop'',
     ''slurred_speech'', ''arm_weakness'', ''severe_bleeding'', ''heavy_bleeding'',
     ''anaphylaxis_signs'', ''severe_allergy_swelling''}"

text \<open>The dictionary literal \<open>SYMPTOM_POINTS\<close>, in source order; its keys are distinct.\<close>

definition SYMPTOM_POINTS :: "(string \<times> int) list" where
  "SYMPTOM_POINTS =
    [(''unconscious'', 5), (''not_responding'', 5), (''fainting'', 5),
     (''severe_bleeding'', 5), (''heavy_bleeding'', 5), (''face_droop'', 5),
     (''slurred_speech'', 5), (''arm_weakness'', 5), (''stroke_signs'', 5),
     (''severe_allergy_swelling'', 5), (''anaphylaxis_signs'', 5),
     (''trouble_breathing'', 4), (''shortness_of_breath'', 4), (''chest_pain'', 4),
     (''chest_pain_crushing'', 4), (''choking'', 4), (''turning_blue'', 4),
     (''moderate_bleeding'', 3), (''seizure_now'', 3), (''major_trauma'', 3),
     (''head_injury'', 3), (''confusion'', 3),
     (''high_fever'', 2), (''fever'', 2), (''vomiting_severe'', 2),
     (''diarrhea_severe'', 2), (''dehydration'', 2), (''palpitations'', 2),
     (''wheezing'', 2),
     (''mild_pain'', 1), (''headache'', 1), (''rash'', 1), (''chills'', 1),
     (''nausea'', 1), (''vomiting'', 1), (''diarrhea'', 1), (''panic'', 1),
     (''severe_distress'', 1), (''swelling_face_lips'', 1)]"

text \<open>\<open>SYMPTOM_POINTS.get(symptom, 0)\<close>\<close>

definition SYMPTOM_POINTS_get :: "string \<Rightarrow> int" where
  "SYMPTOM_POINTS_get symptom =
    (case map_of SYMPTOM_POINTS symptom of None \<Rightarrow> 0 | Some p \<Rightarrow> p)"

definition CATEGORY_RULES :: "(string \<times> string set) list" where
  "CATEGORY_RULES =
    [(''trauma_bleeding'',
        {''severe_bleeding'', ''heavy_bleeding'', ''moderate_bleeding'',
         ''major_trauma'', ''head_injury''}),
     (''cardiac'', {''chest_pain'', ''chest_pain_crushing'', ''palpitations''}),
     (''respiratory'',
        {''shortness_of_breath'', ''wheezing'', ''choking'', ''trouble_breathing'',
         ''turning_blue''}),
     (''neuro'',
        {''seizure_now'', ''fainting'', ''face_droop'', ''slurred_speech'',
         ''arm_weakness'', ''stroke_signs'', ''confusion'', ''unconscious'',
         ''not_responding''}),
     (''allergic'',
        {''rash'', ''swelling_face_lips'', ''anaphylaxis_signs'',
         ''severe_allergy_swelling''}),
     (''infection_fever'', {''fever'', ''high_fever'', ''chills''}),
     (''gi_dehydration'',
        {''vomiting'', ''vomiting_severe'', ''diarrhea'', ''diarrhea_severe'',
         ''dehydration'', ''nausea''}),
     (''mental_health'', {''panic'', ''severe_distress''})]"

definition PRIORITY :: "string list" where
  "PRIORITY =
    [''trauma_bleeding'', ''cardiac'', ''respiratory'', ''neuro'', ''allergic'',
     ''infection_fever'', ''gi_dehydration'', ''mental_health'']"

definition FOLLOWUP_QUESTIONS :: "string list" where
  "FOLLOWUP_QUESTIONS =
    [''What is the main symptom?'',
     ''How long has it been happening?'',
     ''Is the person conscious and breathing normally?'',
     ''Is there any bleeding or visible injury?'',
     ''Can the person speak in full sentences?'']"

definition pick_category :: "string set \<Rightarrow> string" where
  "pick_category symptoms =
    (let hits = map fst (filter (\<lambda>(cat, symptom_set). symptoms \<inter> symptom_set \<noteq> {})
                            CATEGORY_RULES)
     in if hits = [] then ''other_unclear''
        else (case find (\<lambda>cat. cat \<in> set hits) PRIORITY of
                Some cat \<Rightarrow> cat
              | None \<Rightarrow> hd hits))"

text \<open>The loop \<open>for symptom in symptoms: score += SYMPTOM_POINTS.get(symptom, 0)\<close> over a
  (finite) Python set: a sum over the set.\<close>

definition calculate_symptom_score :: "string set \<Rightarrow> int" where
  "calculate_symptom_score symptoms = (\<Sum>symptom\<in>symptoms. SYMPTOM_POINTS_get symptom)"

definition map_score_to_severity :: "int \<Rightarrow> int" where
  "map_score_to_severity score =
    (if score = 0 then 0
     else if score \<le> 2 then 1
     else if score \<le> 4 then 2
     else 3)"

text \<open>\<open>score > 0 and voice_stress_score is not None and voice_stress_score >= 0.80\<close>\<close>

definition stress_bonus_applies :: "int \<Rightarrow> real option \<Rightarrow> bool" where
  "stress_bonus_applies score voice_stress_score =
    (score > 0 \<and> (case voice_stress_score of None \<Rightarrow> False | Some v \<Rightarrow> v \<ge> 0.80))"

definition compute_severity :: "string set \<Rightarrow> real option \<Rightarrow> int \<times> bool" where
  "compute_severity symptoms voice_stress_score =
    (if symptoms \<inter> RED_FLAGS \<noteq> {} then (3, True)
     else
       let score = calculate_symptom_score symptoms;
           score = (if stress_bonus_applies score voice_stress_score then score + 1 else score);
           severity = map_score_to_severity score;
           escalate = (severity = 3)
       in (severity, escalate))"

text \<open>\<open>str.isspace\<close> on the 8-bit code points, and \<open>str.strip()\<close>.\<close>

definition isspace :: "char \<Rightarrow> bool" where
  "isspace c = (of_char c \<in> {9, 10, 11, 12, 13, 28, 29, 30, 31, 32, 133, 160 :: nat})"

definition strip :: "string \<Rightarrow> string" where
  "strip s = rev (dropWhile isspace (rev (dropWhile isspace s)))"

text \<open>\<open>free_text or ""\<close>, for a \<open>free_text\<close> that is a string or \<open>None\<close>.\<close>

definition or_empty :: "string option \<Rightarrow> string" where
  "or_empty t = (case t of None \<Rightarrow> [] | Some s \<Rightarrow> s)"

text \<open>The dictionary that \<open>triage\<close> returns; its keys carry the prefix \<open>t_\<close> where they would
  clash with a field of another record.\<close>

record score_breakdown =
  symptom_score :: int
  voice_bonus :: int
  total_score :: int
  red_flag_detected :: bool
  duration_minutes :: "int option"

record triage_dict =
  t_category :: string
  t_severity_level :: int
  t_escalate_human :: bool
  t_confidence :: real
  t_followup_questions :: "string list"
  t_score_breakdown :: score_breakdown

definition triage ::
  "string list \<Rightarrow> string option \<Rightarrow> int option \<Rightarrow> real option \<Rightarrow> triage_dict" where
  "triage symptoms free_text duration voice_stress_score =
    (let sym = set symptoms in
     if sym = {} \<and> strip (or_empty free_text) = [] then
       \<lparr> t_category = ''other_unclear'',
         t_severity_level = 0,
         t_escalate_human = False,
         t_confidence = 0.0,
         t_followup_questions = FOLLOWUP_QUESTIONS,
         t_score_breakdown =
           \<lparr> symptom_score = 0, voice_bonus = 0, total_score = 0,
             red_flag_detected = False, duration_minutes = duration \<rparr> \<rparr>
     else
       let category = pick_category sym;
           (severity, escalate) = compute_severity sym voice_stress_score;
           base_score = calculate_symptom_score sym;
           bonus = (if stress_bonus_applies base_score voice_stress_score then 1 else 0);
           total = base_score + bonus;
           red_flag = (sym \<inter> RED_FLAGS \<noteq> {});
           conf = (if severity = 0 then 0.0
                   else if red_flag \<or> severity = 3 then 0.90
                   else if severity = 2 then 0.75
                   else 0.65)
       in \<lparr> t_category = category,
            t_severity_level = severity,
            t_escalate_human = escalate,
            t_confidence = conf,
            t_followup_questions = (if severity > 0 then [] else FOLLOWUP_QUESTIONS),
            t_score_breakdown =
              \<lparr> symptom_score = base_score, voice_bonus = bonus, total_score = total,
                red_flag_detected = red_flag, duration_minutes = duration \<rparr> \<rparr>)"

section \<open>Medic matcher (\<open>src/medic_matcher.py\<close>)\<close>

text \<open>The dataclass \<open>Medic\<close>; its field \<open>id\<close> is \<open>m_id\<close> here.\<close>

record Medic =
  m_id :: string
  name :: string
  specialty :: string
  certification_level :: string
  gps_location :: "float64 \<times> float64"
  status :: string
  current_load :: int
  missions_completed :: int
  rating :: float64
  languages :: "string list"

definition RIYADH_CENTER :: "float64 \<times> float64" where
  "RIYADH_CENTER = (float_literal 24.7136, float_literal 46.6753)"

definition SPECIALTY_MAP :: "(string \<times> string list) list" where
  "SPECIALTY_MAP =
    [(''cardiac'', [''cardiac'', ''chest_pain'']),
     (''trauma'', [''trauma_bleeding'', ''major_injury'']),
     (''respiratory'', [''respiratory'', ''breathing'']),
     (''neuro'', [''neuro'', ''neurological'', ''stroke'']),
     (''pediatric'', [''pediatric'', ''child'']),
     (''general'',
        [''infection_fever'', ''gi_dehydration'', ''allergic'', ''other_unclear'',
         ''mental_health''])]"

text \<open>
  The values that the generator \<open>random.Random(seed)\<close> hands out are inputs of the model:
  \<open>medic_draws\<close> holds what \<open>_generate_mock_medics\<close> draws for one medic (the two coordinate
  offsets, the status chosen from the pool, load, missions, the rating before rounding, the
  sampled languages), and \<open>environment\<close> gives the draws of the roster generator for each
  index, for each seed the two offsets that \<open>find_best_match\<close> draws for the patient
  location, and the C library's \<open>pow\<close> on finite arguments. The drawn floats are finite, so
  they are reals here.
\<close>

record medic_draws =
  d_lat :: real
  d_lon :: real
  d_status :: string
  d_load :: int
  d_missions :: int
  d_rating :: real
  d_languages :: "string list"

record environment =
  roster_draws :: "nat \<Rightarrow> medic_draws"
  location_draws :: "int \<Rightarrow> real \<times> real"
  libm_pow :: "real \<Rightarrow> real \<Rightarrow> float64"

definition medic_names :: "string list" where
  "medic_names =
    [''Dr. Ahmed Al-Rashid'', ''Dr. Fatima Al-Zahrani'', ''Mohammed Al-Qahtani'',
     ''Sara Al-Mutairi'', ''Dr. Khalid Al-Dosari'', ''Noura Al-Shehri'',
     ''Abdullah Al-Harbi'', ''Layla Al-Otaibi'', ''Dr. Omar Al-Ghamdi'',
     ''Aisha Al-Fadel'', ''Dr. Saleh Al-Subaie'', ''Reem Al-Mansour'',
     ''Faisal Al-Juhani'', ''Maha Al-Tamimi'', ''Dr. Yasser Al-Anazi'']"

definition specialties :: "string list" where
  "specialties = [''cardiac'', ''trauma'', ''respiratory'', ''neuro'', ''pediatric'', ''general'']"

definition certifications :: "string list" where
  "certifications = [''paramedic'', ''emt_advanced'', ''critical_care'']"

text \<open>Decimal digits of a natural number, for \<open>f"MED-{1000 + i}"\<close>.\<close>

fun str_nat :: "nat \<Rightarrow> string" where
  "str_nat n =
    (if n < 10 then [char_of (48 + n)]
     else str_nat (n div 10) @ [char_of (48 + n mod 10)])"

text \<open>The body of the loop of \<open>_generate_mock_medics\<close>: the medic with index \<open>i\<close> and name
  \<open>nm\<close>.\<close>

definition mock_medic :: "(nat \<Rightarrow> medic_draws) \<Rightarrow> nat \<Rightarrow> string \<Rightarrow> Medic" where
  "mock_medic draws i nm =
    (let lat = fadd (fst RIYADH_CENTER) (Fin (d_lat (draws i)));
         lon = fadd (snd RIYADH_CENTER) (Fin (d_lon (draws i)))
     in \<lparr> m_id = ''MED-'' @ str_nat (1000 + i),
          name = nm,
          specialty = specialties ! (i mod length specialties),
          certification_level = certifications ! (i mod length certifications),
          gps_location = (py_round lat 6, py_round lon 6),
          status = d_status (draws i),
          current_load = d_load (draws i),
          missions_completed = d_missions (draws i),
          rating = py_round (Fin (d_rating (draws i))) 1,
          languages = d_languages (draws i) \<rparr>)"

definition generate_mock_medics :: "(nat \<Rightarrow> medic_draws) \<Rightarrow> Medic list" where
  "generate_mock_medics draws =
    map (\<lambda>(i, nm). mock_medic draws i nm) (enumerate 0 medic_names)"

record MedicDatabase =
  medics :: "Medic list"

definition MedicDatabase_init :: "environment \<Rightarrow> MedicDatabase" where
  "MedicDatabase_init env = \<lparr> medics = generate_mock_medics (roster_draws env) \<rparr>"

definition get_available_medics :: "MedicDatabase \<Rightarrow> Medic list" where
  "get_available_medics d = filter (\<lambda>m. status m = ''available'') (medics d)"

definition get_by_id :: "MedicDatabase \<Rightarrow> string \<Rightarrow> Medic option" where
  "get_by_id d medic_id = find (\<lambda>medic. m_id medic = medic_id) (medics d)"

text \<open>\<open>update_status\<close> assigns to the \<open>status\<close> of the first medic that has the id.\<close>

fun set_first_status :: "string \<Rightarrow> string \<Rightarrow> Medic list \<Rightarrow> Medic list" where
  "set_first_status medic_id new_status [] = []"
| "set_first_status medic_id new_status (m # ms) =
    (if m_id m = medic_id then m\<lparr>status := new_status\<rparr> # ms
     else m # set_first_status medic_id new_status ms)"

definition update_status :: "MedicDatabase \<Rightarrow> string \<Rightarrow> string \<Rightarrow> MedicDatabase" where
  "update_status d medic_id new_status =
    d\<lparr>medics := set_first_status medic_id new_status (medics d)\<rparr>"

record MedicMatcher =
  db :: MedicDatabase

definition MedicMatcher_init :: "environment \<Rightarrow> MedicMatcher" where
  "MedicMatcher_init env = \<lparr> db = MedicDatabase_init env \<rparr>"

text \<open>\<open>_calculate_distance\<close>: the two powers can raise, everything else is float arithmetic.\<close>

definition calculate_distance ::
  "environment \<Rightarrow> float64 \<times> float64 \<Rightarrow> float64 \<times> float64 \<Rightarrow> py_error + float64" where
  "calculate_distance env loc1 loc2 =
    (let (lat1, lon1) = loc1;
         (lat2, lon2) = loc2;
         lat_diff = fabs (fsub lat2 lat1);
         lon_diff = fabs (fsub lon2 lon1)
     in bind_err (py_pow (libm_pow env) lat_diff 2) (\<lambda>lat_sq.
        bind_err (py_pow (libm_pow env) lon_diff 2) (\<lambda>lon_sq.
        bind_err (py_pow (libm_pow env) (fadd lat_sq lon_sq) 0.5) (\<lambda>root.
          let distance_km = fmul root (Fin 111)
          in Inr (py_round distance_km 2)))))"

definition estimate_eta :: "float64 \<Rightarrow> string \<Rightarrow> float64" where
  "estimate_eta dist_km mode =
    (let speed_kmh = (if mode = ''aerial'' then 120 else 40);
         eta_mins = fmul (fdiv_by dist_km speed_kmh) (Fin 60)
     in py_round eta_mins 1)"

definition calculate_specialty_match :: "string \<Rightarrow> string \<Rightarrow> float64" where
  "calculate_specialty_match medic_specialty case_category =
    (if (case map_of SPECIALTY_MAP medic_specialty of
           None \<Rightarrow> False
         | Some categories \<Rightarrow> case_category \<in> set categories)
     then Fin 1
     else if medic_specialty = ''general'' then float_literal 0.7
     else float_literal 0.4)"

text \<open>The dictionary literal indexed by \<open>medic.certification_level\<close>; a missing key raises
  \<open>KeyError\<close>.\<close>

definition cert_score_table :: "(string \<times> float64) list" where
  "cert_score_table =
    [(''paramedic'', float_literal 0.7), (''emt_advanced'', float_literal 0.85),
     (''critical_care'', Fin 1)]"

record score_breakdown_dict =
  distance_score :: float64
  specialty_score :: float64
  workload_score :: float64
  rating_score :: float64
  cert_score :: float64

record score_data =
  medic_id :: string
  composite_score :: float64
  distance_km :: float64
  eta_minutes :: float64
  specialty_match :: float64
  breakdown :: score_breakdown_dict

text \<open>\<open>_calculate_match_score\<close>, in the order in which the source evaluates: the distance
  (whose powers can raise), the load quotient (an integer division, which can raise
  \<open>OverflowError\<close>), then the certification lookup (\<open>KeyError\<close>).\<close>

definition calculate_match_score ::
  "environment \<Rightarrow> Medic \<Rightarrow> string \<Rightarrow> float64 \<times> float64 \<Rightarrow> int \<Rightarrow> string
     \<Rightarrow> py_error + score_data" where
  "calculate_match_score env medic case_category patient_loc severity mode =
    bind_err (calculate_distance env (gps_location medic) patient_loc) (\<lambda>distance.
      let eta = estimate_eta distance mode;
          sp_score = calculate_specialty_match (specialty medic) case_category;
          dist_score = py_max0 (fsub (Fin 1) (fdiv_by distance 20))
      in bind_err (int_truediv_by (current_load medic) 100) (\<lambda>load_quotient.
           let load_score = fsub (Fin 1) load_quotient;
               rate_score = fdiv_by (rating medic) 5.0
           in case map_of cert_score_table (certification_level medic) of
                None \<Rightarrow> Inl KeyError
              | Some c_score \<Rightarrow>
                  let composite =
                        fadd (fadd (fadd (fadd (fmul dist_score (float_literal 0.40))
                                               (fmul sp_score (float_literal 0.30)))
                                         (fmul load_score (float_literal 0.15)))
                                   (fmul rate_score (float_literal 0.10)))
                             (fmul c_score (float_literal 0.05))
                  in Inr \<lparr> medic_id = m_id medic,
                           composite_score = py_round composite 3,
                           distance_km = distance,
                           eta_minutes = eta,
                           specialty_match = sp_score,
                           breakdown =
                             \<lparr> distance_score = py_round dist_score 2,
                               specialty_score = py_round sp_score 2,
                               workload_score = py_round load_score 2,
                               rating_score = py_round rate_score 2,
                               cert_score = py_round c_score 2 \<rparr> \<rparr>))"

text \<open>The loop that scores every available medic; the first exception ends it. An entry
  \<open>{"medic": medic, "score_data": score_data}\<close> of \<open>scores\<close> is a pair.\<close>

fun score_all ::
  "environment \<Rightarrow> Medic list \<Rightarrow> string \<Rightarrow> float64 \<times> float64 \<Rightarrow> int \<Rightarrow> string
     \<Rightarrow> py_error + (Medic \<times> score_data) list" where
  "score_all env [] category patient_location severity mode = Inr []"
| "score_all env (medic # rest) category patient_location severity mode =
    (case calculate_match_score env medic category patient_location severity mode of
       Inl e \<Rightarrow> Inl e
     | Inr sd \<Rightarrow>
         (case score_all env rest category patient_location severity mode of
            Inl e \<Rightarrow> Inl e
          | Inr scores \<Rightarrow> Inr ((medic, sd) # scores)))"

text \<open>The two dictionaries that \<open>find_best_match\<close> indexes: \<open>decision_output["response_mode"]\<close>,
  \<open>triage_output["severity_level"]\<close> and \<open>triage_output["category"]\<close>.\<close>

record decision_output =
  do_response_mode :: string

record triage_output =
  to_severity_level :: int
  to_category :: string

text \<open>A status as it is shown: the literal \<open>"En Route"\<close>, or
  \<open>status.replace('_', ' ').title()\<close> of a medic's status.\<close>

datatype display_status = Display_literal string | Display_title string

datatype match_reason =
    Specialty_match_for string string
  | Distance_with_eta float64 float64
  | Certification_is string
  | Rating_with_missions float64 int

datatype reasoning_value = Reason_text string | Reason_list "match_reason list"

record assigned_medic_dict =
  am_id :: string
  am_name :: string
  am_specialty :: string
  am_certification :: string
  am_rating :: float64
  am_languages :: "string list"
  am_distance_km :: float64
  am_eta_minutes :: float64
  am_missions_completed :: int
  am_status :: display_status
  am_gps_location :: "float64 \<times> float64"

record alternative_dict =
  alt_id :: string
  alt_name :: string
  alt_score :: float64
  alt_eta_minutes :: float64
  alt_specialty :: string
  alt_status :: display_status
  alt_gps_location :: "float64 \<times> float64"

record roster_entry_dict =
  re_id :: string
  re_name :: string
  re_specialty :: string
  re_status :: display_status
  re_gps_location :: "float64 \<times> float64"

text \<open>The dictionary that \<open>find_best_match\<close> returns. \<open>assigned_medic\<close> is always a key, with the
  value \<open>None\<close> or a dictionary; for every other optional field \<open>None\<close> means that the key is
  absent. The key \<open>status\<close> is \<open>result_status\<close>.\<close>

record match_result =
  assigned_medic :: "assigned_medic_dict option"
  reasoning :: reasoning_value
  match_time_seconds :: float64
  result_status :: "string option"
  match_score :: "float64 option"
  match_breakdown :: "score_breakdown_dict option"
  alternatives :: "alternative_dict list option"
  all_medics :: "roster_entry_dict list option"
  patient_location :: "(float64 \<times> float64) option"

text \<open>The block \<open>if patient_location is None: ...\<close> of \<open>find_best_match\<close>: an explicit location
  is kept; otherwise the location is the centre plus the two offsets drawn from
  \<open>random.Random(seed)\<close>, the seed being \<open>scenario_seed\<close> or 1.\<close>

definition derive_location ::
  "environment \<Rightarrow> (float64 \<times> float64) option \<Rightarrow> int option \<Rightarrow> float64 \<times> float64" where
  "derive_location env patient_loc scenario_seed =
    (case patient_loc of
       Some l \<Rightarrow> l
     | None \<Rightarrow>
         let seed = (case scenario_seed of Some sd \<Rightarrow> sd | None \<Rightarrow> 1);
             (u1, u2) = location_draws env seed
         in (fadd (fst RIYADH_CENTER) (Fin u1), fadd (snd RIYADH_CENTER) (Fin u2)))"

text \<open>\<open>"aerial" if response_mode in ["aerial_only", "combined"] else "ground"\<close>\<close>

definition transport_mode :: "string \<Rightarrow> string" where
  "transport_mode response =
    (if response \<in> set [''aerial_only'', ''combined''] then ''aerial'' else ''ground'')"

text \<open>
  \<open>scores.sort(key=..., reverse=True)\<close> compares the keys with \<open><\<close> only and is stable: of two
  entries the one with the greater key comes first, and entries with equal keys keep their
  order. \<open>sort_desc\<close> is that order, built by insertion from the right: an entry goes in front
  of the first entry whose key is not greater than its own. (When a key is NaN the
  comparisons are not an order and the result of \<open>list.sort\<close> is not specified; the composite
  scores are not NaN, see \<open>composite_not_NaN\<close> below.)
\<close>

fun insert_desc :: "('a \<Rightarrow> float64) \<Rightarrow> 'a \<Rightarrow> 'a list \<Rightarrow> 'a list" where
  "insert_desc key x [] = [x]"
| "insert_desc key x (y # ys) =
    (if flt (key x) (key y) then y # insert_desc key x ys else x # y # ys)"

definition sort_desc :: "('a \<Rightarrow> float64) \<Rightarrow> 'a list \<Rightarrow> 'a list" where
  "sort_desc key xs = foldr (insert_desc key) xs []"

text \<open>
  \<open>find_best_match\<close>. The two readings of \<open>time.time()\<close> (on entry and at the return) are the
  pair \<open>clock\<close>. The method returns its result and the matcher object as it is afterwards.
\<close>

definition find_best_match ::
  "MedicMatcher \<Rightarrow> environment \<Rightarrow> real \<times> real \<Rightarrow> decision_output \<Rightarrow> triage_output
     \<Rightarrow> (float64 \<times> float64) option \<Rightarrow> int option
     \<Rightarrow> (py_error + match_result) \<times> MedicMatcher" where
  "find_best_match self env clock decision triage_out patient_loc scenario_seed =
    (let (start_time, end_time) = clock;
         response = do_response_mode decision;
         severity = to_severity_level triage_out;
         category = to_category triage_out;
         location = derive_location env patient_loc scenario_seed
     in if response = ''ground_only'' then
          (Inr \<lparr> assigned_medic = None,
                 reasoning = Reason_text ''Ground ambulance only, no aerial medic needed'',
                 match_time_seconds = py_round (fsub (Fin end_time) (Fin start_time)) 3,
                 result_status = None, match_score = None, match_breakdown = None,
                 alternatives = None, all_medics = None, patient_location = None \<rparr>,
           self)
        else
          let available = get_available_medics (db self)
          in if available = [] then
               (Inr \<lparr> assigned_medic = None,
                      reasoning = Reason_text ''No medics currently available'',
                      match_time_seconds = py_round (fsub (Fin end_time) (Fin start_time)) 3,
                      result_status = Some ''error'', match_score = None,
                      match_breakdown = None, alternatives = None, all_medics = None,
                      patient_location = None \<rparr>,
                self)
             else
               let mode = transport_mode response
               in case score_all env available category location severity mode of
                    Inl e \<Rightarrow> (Inl e, self)
                  | Inr unsorted \<Rightarrow>
                      (case sort_desc (\<lambda>x. composite_score (snd x)) unsorted of
                         [] \<Rightarrow> (Inl IndexError, self)
                       | (best_medic, best_score) # others \<Rightarrow>
                           (Inr \<lparr> assigned_medic =
                                    Some \<lparr> am_id = m_id best_medic,
                                           am_name = name best_medic,
                                           am_specialty = specialty best_medic,
                                           am_certification = certification_level best_medic,
                                           am_rating = rating best_medic,
                                           am_languages = languages best_medic,
                                           am_distance_km = distance_km best_score,
                                           am_eta_minutes = eta_minutes best_score,
                                           am_missions_completed = missions_completed best_medic,
                                           am_status = Display_literal ''En Route'',
                                           am_gps_location = gps_location best_medic \<rparr>,
                                  reasoning =
                                    Reason_list
                                      [Specialty_match_for (specialty best_medic) category,
                                       Distance_with_eta (distance_km best_score)
                                         (eta_minutes best_score),
                                       Certification_is (certification_level best_medic),
                                       Rating_with_missions (rating best_medic)
                                         (missions_completed best_medic)],
                                  match_time_seconds = py_round (fsub (Fin end_time) (Fin start_time)) 3,
                                  result_status = Some ''success'',
                                  match_score = Some (composite_score best_score),
                                  match_breakdown = Some (breakdown best_score),
                                  alternatives =
                                    Some (map (\<lambda>(alt_medic, alt_data).
                                                 \<lparr> alt_id = m_id alt_medic,
                                                   alt_name = name alt_medic,
                                                   alt_score = composite_score alt_data,
                                                   alt_eta_minutes = eta_minutes alt_data,
                                                   alt_specialty = specialty alt_medic,
                                                   alt_status = Display_title (status alt_medic),
                                                   alt_gps_location = gps_location alt_medic \<rparr>)
                                            (take 3 others)),
                                  all_medics =
                                    Some (map (\<lambda>m.
                                                 \<lparr> re_id = m_id m,
                                                   re_name = name m,
                                                   re_specialty = specialty m,
                                                   re_status =
                                                     (if m_id m \<noteq> m_id best_medic
                                                      then Display_title (status m)
                                                      else Display_literal ''En Route''),
                                                   re_gps_location = gps_location m \<rparr>)
                                            (medics (db self))),
                                  patient_location =
                                    Some (py_round (fst location) 6, py_round (snd location) 6) \<rparr>,
                            self)))"

text \<open>The rosters that a matcher can hold: the generated one, changed only by
  \<open>update_status\<close> (nothing else in the repository assigns to a medic or to the list).\<close>

inductive reachable_db :: "environment \<Rightarrow> MedicDatabase \<Rightarrow> bool" for env where
  reachable_init: "reachable_db env (MedicDatabase_init env)"
| reachable_update:
    "reachable_db env d \<Longrightarrow> reachable_db env (update_status d ident new_status)"

text \<open>The module-level singleton \<open>_matcher_instance\<close> is the state that \<open>get_matcher\<close> and
  \<open>assign_medic\<close> thread: they return the value of the global as it is afterwards.\<close>

definition get_matcher ::
  "environment \<Rightarrow> MedicMatcher option \<Rightarrow> MedicMatcher \<times> MedicMatcher option" where
  "get_matcher env matcher_instance =
    (case matcher_instance of
       None \<Rightarrow> (let m = MedicMatcher_init env in (m, Some m))
     | Some m \<Rightarrow> (m, Some m))"


subsection \<open>Notions used in the statements about the matcher\<close>

text \<open>Every medic of a list has one of the three certification levels of the generator.\<close>

definition certified :: "Medic list \<Rightarrow> bool" where
  "certified ms = (\<forall>m \<in> set ms. certification_level m \<in> set certifications)"


subsection \<open>A concrete environment\<close>

text \<open>
  An environment whose generator draws, for every medic, no offset from the centre, the
  status \<open>available\<close>, load 37 and rating 4.6, and whose \<open>pow\<close> is correctly rounded for the
  exponents 2 and 0.5; and one that differs only in drawing the status \<open>off_duty\<close>.
\<close>

definition example_draws :: medic_draws where
  "example_draws =
    \<lparr> d_lat = 0, d_lon = 0, d_status = ''available'', d_load = 37, d_missions = 100,
      d_rating = 4.6, d_languages = [''ar'', ''en''] \<rparr>"

definition example_pow :: "real \<Rightarrow> real \<Rightarrow> float64" where
  "example_pow x w = (if w = 2 then round64 (x * x) else round64 (sqrt x))"

definition example_env :: environment where
  "example_env =
    \<lparr> roster_draws = (\<lambda>i. example_draws), location_draws = (\<lambda>seed. (0, 0)),
      libm_pow = example_pow \<rparr>"


section \<open>Properties of binary64 rounding\<close>

lemma binade_eq:
  assumes "power_int 2 e \<le> \<bar>x\<bar>" and "\<bar>x\<bar> < power_int 2 (e + 1)" and "- 1022 \<le> e"
  shows "binade x = e"
proof -
  have pos: "0 < \<bar>x\<bar>"
    using assms(1) zero_less_power_int [of "2::real" e] by linarith
  have "(2::real) powr (real_of_int e) \<le> \<bar>x\<bar>"
    using assms(1) by (simp add: powr_real_of_int')
  moreover have "\<bar>x\<bar> < (2::real) powr (real_of_int e + 1)"
    using assms(2) powr_real_of_int' [of "2::real" "e + 1"] by simp
  ultimately have "\<lfloor>log 2 \<bar>x\<bar>\<rfloor> = e"
    using floor_log_eq_powr_iff [of "\<bar>x\<bar>" 2 e] pos by simp
  with assms(3) show ?thesis by (simp add: binade_def)
qed

text \<open>How \<open>round64\<close> is evaluated once the exponent of the argument is known.\<close>

lemma round64_eval:
  assumes "power_int 2 e \<le> \<bar>x\<bar>" and "\<bar>x\<bar> < power_int 2 (e + 1)" and "- 1022 \<le> e"
  shows "round64 x =
    (let y = of_int (round_half_even (x / power_int 2 (e - 52))) * power_int 2 (e - 52)
     in if \<bar>y\<bar> \<ge> 2 ^ 1024 then (if x > 0 then PInf else NInf) else Fin y)"
proof -
  have "0 < \<bar>x\<bar>"
    using assms(1) zero_less_power_int [of "2::real" e] by linarith
  then have "x \<noteq> 0" by simp
  then show ?thesis
    by (simp add: round64_def binade_eq [OF assms] Let_def)
qed

section \<open>Properties of the dispatch rule engine\<close>

lemma fgt_Fin [simp]: "fgt (Fin x) (Fin y) \<longleftrightarrow> x > y"
  by (simp add: fgt_def)

text \<open>
  Claim C1. For every input, \<open>dispatch\<close> returns the outcome of the first matching rule
  under strict comparisons: weather above 35.0 gives AMBULANCE / SAFETY_FILTER with
  confidence 1.0; otherwise a ground ETA above the harm threshold gives BOTH /
  EMERGENCY_OVERRIDE with confidence 0.98; otherwise a time delta above 10.0 gives BOTH /
  EFFICIENCY_OPTIMIZATION with confidence 0.90; otherwise AMBULANCE / DEFAULT with
  confidence 0.9. An input exactly at a threshold (weather equal to 35.0, or time delta equal
  to 10.0) does not trigger that rule. The inputs are any binary64 values, the comparisons
  are the float comparisons, the time delta is the float difference that the code computes,
  and the confidences are the float literals of the source.
\<close>

theorem dispatch_first_matching_rule:
  "(response_mode (dispatch w h g a), rule_triggered (dispatch w h g a),
      confidence (dispatch w h g a)) =
     (if fgt w (Fin 35) then (AMBULANCE, SAFETY_FILTER, Fin 1)
      else if fgt g h then (BOTH, EMERGENCY_OVERRIDE, float_literal 0.98)
      else if fgt (fsub g a) (Fin 10) then (BOTH, EFFICIENCY_OPTIMIZATION, float_literal 0.90)
      else (AMBULANCE, DEFAULT, float_literal 0.9))
   \<and> time_delta_min (dispatch w h g a) = fsub g a
   \<and> rule_triggered (dispatch (Fin 35) h g a) \<noteq> SAFETY_FILTER
   \<and> (fsub g a = Fin 10 \<longrightarrow> rule_triggered (dispatch w h g a) \<noteq> EFFICIENCY_OPTIMIZATION)"
  by (simp add: dispatch_def WEATHER_RISK_THRESHOLD_def EFFICIENCY_TIME_DELTA_def Let_def)

text \<open>
  The witness takes the theorem at four inputs. At ground 13.5 and air 3.5 the difference
  is 10.0 and the rule falls through to DEFAULT. At weather 35.0, ground 15.0 and air 3.5 the
  weather rule does not fire and the efficiency rule does. The other two inputs lie next to
  the boundary: the floats nearest to 16.1 and 6.1, whose float difference is
  \<open>10 + 1 / 2 ^ 49\<close>, give EFFICIENCY_OPTIMIZATION; the floats \<open>11 + 1 / 2 ^ 49\<close> and
  \<open>1 + 7 / 2 ^ 52\<close>, whose exact difference \<open>10 + 1 / 2 ^ 52\<close> rounds to 10.0, give DEFAULT.
\<close>

theorem dispatch_first_matching_rule_witness:
  "fsub (Fin 13.5) (Fin 3.5) = Fin 10
   \<and> rule_triggered (dispatch (Fin 5) (Fin 20) (Fin 13.5) (Fin 3.5)) = DEFAULT
   \<and> response_mode (dispatch (Fin 5) (Fin 20) (Fin 13.5) (Fin 3.5)) = AMBULANCE
   \<and> confidence (dispatch (Fin 5) (Fin 20) (Fin 13.5) (Fin 3.5)) = float_literal 0.9
   \<and> rule_triggered (dispatch (Fin 35) (Fin 20) (Fin 15) (Fin 3.5)) = EFFICIENCY_OPTIMIZATION
   \<and> rule_triggered
        (dispatch (Fin 5) (Fin 20) (Fin (2265873562520781 / 2 ^ 47))
           (Fin (3433994715870003 / 2 ^ 49))) = EFFICIENCY_OPTIMIZATION
   \<and> rule_triggered
        (dispatch (Fin 5) (Fin 20) (Fin (11 + 1 / 2 ^ 49)) (Fin (1 + 7 / 2 ^ 52))) = DEFAULT"
proof -
  have d1: "fsub (Fin 13.5) (Fin 3.5) = Fin 10"
    unfolding fsub_def fneg.simps fadd.simps
    by (subst round64_eval [where e = 3]) (simp_all add: round_half_even_def Let_def)
  have d2: "fsub (Fin 15) (Fin 3.5) = Fin 11.5"
    unfolding fsub_def fneg.simps fadd.simps
    by (subst round64_eval [where e = 3]) (simp_all add: round_half_even_def Let_def)
  have d3: "fsub (Fin (2265873562520781 / 2 ^ 47)) (Fin (3433994715870003 / 2 ^ 49))
              = Fin (10 + 1 / 2 ^ 49)"
    unfolding fsub_def fneg.simps fadd.simps
    by (subst round64_eval [where e = 3]) (simp_all add: round_half_even_def Let_def)
  have d4: "fsub (Fin (11 + 1 / 2 ^ 49)) (Fin (1 + 7 / 2 ^ 52)) = Fin 10"
    unfolding fsub_def fneg.simps fadd.simps
    by (subst round64_eval [where e = 3]) (simp_all add: round_half_even_def Let_def)
  show ?thesis
    using dispatch_first_matching_rule [of "Fin 5" "Fin 20" "Fin 13.5" "Fin 3.5"]
      dispatch_first_matching_rule [of "Fin 35" "Fin 20" "Fin 15" "Fin 3.5"]
      dispatch_first_matching_rule [of "Fin 5" "Fin 20" "Fin (2265873562520781 / 2 ^ 47)"
        "Fin (3433994715870003 / 2 ^ 49)"]
      dispatch_first_matching_rule [of "Fin 5" "Fin 20" "Fin (11 + 1 / 2 ^ 49)"
        "Fin (1 + 7 / 2 ^ 52)"]
    unfolding d1 d2 d3 d4 by simp
qed

section \<open>Properties of the triage scorer\<close>

lemma SYMPTOM_POINTS_values_nonneg: "\<forall>(k, v) \<in> set SYMPTOM_POINTS. 0 \<le> v"
  by (simp add: SYMPTOM_POINTS_def)

lemma SYMPTOM_POINTS_get_nonneg: "0 \<le> SYMPTOM_POINTS_get s"
proof (cases "map_of SYMPTOM_POINTS s")
  case None
  then show ?thesis by (simp add: SYMPTOM_POINTS_get_def)
next
  case (Some p)
  then have "(s, p) \<in> set SYMPTOM_POINTS" by (rule map_of_SomeD)
  with SYMPTOM_POINTS_values_nonneg have "0 \<le> p" by blast
  with Some show ?thesis by (simp add: SYMPTOM_POINTS_get_def)
qed

lemma calculate_symptom_score_nonneg: "0 \<le> calculate_symptom_score S"
  unfolding calculate_symptom_score_def
  by (rule sum_nonneg) (rule SYMPTOM_POINTS_get_nonneg)

lemma calculate_symptom_score_mono:
  assumes "finite B" and "A \<subseteq> B"
  shows "calculate_symptom_score A \<le> calculate_symptom_score B"
  unfolding calculate_symptom_score_def
  using assms by (intro sum_mono2) (auto simp: SYMPTOM_POINTS_get_nonneg)

lemma map_score_to_severity_mono:
  "a \<le> b \<Longrightarrow> 0 \<le> a \<Longrightarrow> map_score_to_severity a \<le> map_score_to_severity b"
  by (simp add: map_score_to_severity_def)

lemma map_score_to_severity_le3: "map_score_to_severity a \<le> 3"
  by (simp add: map_score_to_severity_def)

lemma map_score_to_severity_ge0: "0 \<le> map_score_to_severity a"
  by (simp add: map_score_to_severity_def)

lemma strip_blank:
  assumes "\<forall>c \<in> set s. isspace c"
  shows "strip s = []"
proof -
  from assms have e: "dropWhile isspace s = []" by simp
  show ?thesis unfolding strip_def e by simp
qed

lemma compute_severity_no_red_flag:
  "S \<inter> RED_FLAGS = {} \<Longrightarrow>
     compute_severity S vs =
       (let sc = calculate_symptom_score S;
            sc' = (if stress_bonus_applies sc vs then sc + 1 else sc)
        in (map_score_to_severity sc', map_score_to_severity sc' = 3))"
  by (simp add: compute_severity_def Let_def)

lemma compute_severity_red_flag:
  "S \<inter> RED_FLAGS \<noteq> {} \<Longrightarrow> compute_severity S vs = (3, True)"
  by (simp add: compute_severity_def)

lemma triage_scored_branch:
  "set symptoms \<noteq> {} \<or> strip (or_empty ft) \<noteq> [] \<Longrightarrow>
   t_severity_level (triage symptoms ft d vs) = fst (compute_severity (set symptoms) vs)
   \<and> t_escalate_human (triage symptoms ft d vs) = snd (compute_severity (set symptoms) vs)"
  by (auto simp add: triage_def Let_def split: prod.splits)

lemma triage_level0_branch:
  "set symptoms = {} \<and> strip (or_empty ft) = [] \<Longrightarrow>
   t_severity_level (triage symptoms ft d vs) = 0
   \<and> \<not> t_escalate_human (triage symptoms ft d vs)"
  by (simp add: triage_def)

lemma triage_uses_compute_severity:
  "t_severity_level (triage symptoms ft d vs) = fst (compute_severity (set symptoms) vs)
   \<and> t_escalate_human (triage symptoms ft d vs) = snd (compute_severity (set symptoms) vs)"
proof (cases "set symptoms = {} \<and> strip (or_empty ft) = []")
  case True
  then have "compute_severity (set symptoms) vs = (0, False)"
    by (simp add: compute_severity_def calculate_symptom_score_def stress_bonus_applies_def
        map_score_to_severity_def)
  with True show ?thesis using triage_level0_branch [OF True] by simp
next
  case False
  then show ?thesis using triage_scored_branch by blast
qed

text \<open>
  Claim C2. For every symptom set that contains a red-flag tag, \<open>triage\<close> returns severity 3
  and \<open>escalate_human = True\<close>, whatever the voice stress score; for every symptom set without
  a red-flag tag the severity is the fixed mapping (0 to 0, 1--2 to 1, 3--4 to 2, 5 and more
  to 3) of the total score, which is the sum of the per-symptom points plus 1 when that sum is
  nonzero and the voice stress score is present and at least 0.80; and \<open>escalate_human\<close> holds
  exactly when the severity is 3. The mapping and the total are written out here from the
  claim's words, not through \<open>map_score_to_severity\<close>.
\<close>

theorem triage_severity_rule:
  "(set symptoms \<inter> RED_FLAGS \<noteq> {} \<longrightarrow>
      t_severity_level (triage symptoms ft d vs) = 3
      \<and> t_escalate_human (triage symptoms ft d vs))
   \<and> (set symptoms \<inter> RED_FLAGS = {} \<longrightarrow>
       (let base = (\<Sum>s \<in> set symptoms. SYMPTOM_POINTS_get s);
            tot = base + (if base \<noteq> 0 \<and> (\<exists>v. vs = Some v \<and> v \<ge> 0.80) then 1 else 0);
            r = triage symptoms ft d vs
        in 0 \<le> tot
         \<and> (tot = 0 \<longrightarrow> t_severity_level r = 0)
         \<and> (1 \<le> tot \<and> tot \<le> 2 \<longrightarrow> t_severity_level r = 1)
         \<and> (3 \<le> tot \<and> tot \<le> 4 \<longrightarrow> t_severity_level r = 2)
         \<and> (5 \<le> tot \<longrightarrow> t_severity_level r = 3)
         \<and> (t_escalate_human r \<longleftrightarrow> t_severity_level r = 3)))"
proof (intro conjI impI)
  assume rf: "set symptoms \<inter> RED_FLAGS \<noteq> {}"
  show "t_severity_level (triage symptoms ft d vs) = 3"
    using triage_uses_compute_severity [of symptoms ft d vs] compute_severity_red_flag [OF rf] by simp
  show "t_escalate_human (triage symptoms ft d vs)"
    using triage_uses_compute_severity [of symptoms ft d vs] compute_severity_red_flag [OF rf] by simp
next
  assume nrf: "set symptoms \<inter> RED_FLAGS = {}"
  define base where "base = (\<Sum>s \<in> set symptoms. SYMPTOM_POINTS_get s)"
  define bonus :: int where
    "bonus = (if base \<noteq> 0 \<and> (\<exists>v. vs = Some v \<and> v \<ge> 0.80) then 1 else 0)"
  have base_nonneg: "0 \<le> base"
    using calculate_symptom_score_nonneg [of "set symptoms"]
    by (simp add: base_def calculate_symptom_score_def)
  have bonus_eq: "stress_bonus_applies base vs \<longleftrightarrow> bonus = 1"
    using base_nonneg by (auto simp add: stress_bonus_applies_def bonus_def split: option.splits)
  have bonus_cases: "bonus = 0 \<or> bonus = 1" by (simp add: bonus_def)
  have sev: "t_severity_level (triage symptoms ft d vs) = map_score_to_severity (base + bonus)"
    and esc: "t_escalate_human (triage symptoms ft d vs)
                \<longleftrightarrow> map_score_to_severity (base + bonus) = 3"
    using triage_uses_compute_severity [of symptoms ft d vs] compute_severity_no_red_flag [OF nrf, of vs]
      bonus_eq bonus_cases
    by (auto simp add: Let_def base_def calculate_symptom_score_def)
  have "0 \<le> base + bonus" using base_nonneg bonus_cases by auto
  then show "let base = (\<Sum>s \<in> set symptoms. SYMPTOM_POINTS_get s);
            tot = base + (if base \<noteq> 0 \<and> (\<exists>v. vs = Some v \<and> v \<ge> 0.80) then 1 else 0);
            r = triage symptoms ft d vs
        in 0 \<le> tot
         \<and> (tot = 0 \<longrightarrow> t_severity_level r = 0)
         \<and> (1 \<le> tot \<and> tot \<le> 2 \<longrightarrow> t_severity_level r = 1)
         \<and> (3 \<le> tot \<and> tot \<le> 4 \<longrightarrow> t_severity_level r = 2)
         \<and> (5 \<le> tot \<longrightarrow> t_severity_level r = 3)
         \<and> (t_escalate_human r \<longleftrightarrow> t_severity_level r = 3)"
    unfolding Let_def base_def [symmetric] bonus_def [symmetric] sev esc
    by (simp add: map_score_to_severity_def)
qed

text \<open>
  Claim C4. When \<open>symptoms\<close> is empty and \<open>free_text\<close> is blank (absent, empty or made of
  whitespace only), \<open>triage\<close> returns severity 0, category \<open>other_unclear\<close>, no escalation,
  confidence 0.0 and the fixed list of follow-up questions, which is not empty.
\<close>

theorem triage_insufficient_information:
  assumes "symptoms = []" and "\<forall>c \<in> set (or_empty free_text). isspace c"
  shows "triage symptoms free_text d vs =
          \<lparr> t_category = ''other_unclear'', t_severity_level = 0, t_escalate_human = False,
            t_confidence = 0, t_followup_questions = FOLLOWUP_QUESTIONS,
            t_score_breakdown = \<lparr> symptom_score = 0, voice_bonus = 0, total_score = 0,
               red_flag_detected = False, duration_minutes = d \<rparr> \<rparr>
       \<and> FOLLOWUP_QUESTIONS \<noteq> []"
  using assms strip_blank [of "or_empty free_text"]
  by (simp add: triage_def FOLLOWUP_QUESTIONS_def)

lemma triage_total_score:
  "total_score (t_score_breakdown (triage xs ft d vs)) =
     (let b = calculate_symptom_score (set xs) in
      b + (if stress_bonus_applies b vs then 1 else 0))"
  by (auto simp add: triage_def Let_def calculate_symptom_score_def stress_bonus_applies_def
      split: prod.splits)

lemma stress_bonus_applies_mono:
  "stress_bonus_applies a vs \<Longrightarrow> a \<le> b \<Longrightarrow> stress_bonus_applies b vs"
  by (auto simp add: stress_bonus_applies_def)

lemma boosted_score_mono:
  assumes "a \<le> b"
  shows "a + (if stress_bonus_applies a vs then 1 else 0)
           \<le> b + (if stress_bonus_applies b vs then 1 else (0::int))"
  using assms stress_bonus_applies_mono [of a vs b] by auto

lemma compute_severity_fst_no_red_flag:
  "S \<inter> RED_FLAGS = {} \<Longrightarrow>
     fst (compute_severity S vs) =
       map_score_to_severity
         (calculate_symptom_score S
            + (if stress_bonus_applies (calculate_symptom_score S) vs then 1 else 0))"
  by (simp add: compute_severity_def Let_def)

lemma compute_severity_le3: "fst (compute_severity S vs) \<le> 3"
  by (simp add: compute_severity_def Let_def map_score_to_severity_le3)

text \<open>
  Claim C3. Adding a symptom never decreases the total score or the severity: for symptom
  lists \<open>xs\<close> and \<open>ys\<close> with \<open>set ys = set xs \<union> {s}\<close> and the same free text, duration and
  voice stress score, the total score and the severity level of \<open>triage\<close> on \<open>ys\<close> are at least
  those on \<open>xs\<close>.
\<close>

theorem triage_monotone:
  assumes "set ys = insert s (set xs)"
  shows "total_score (t_score_breakdown (triage xs ft d vs))
           \<le> total_score (t_score_breakdown (triage ys ft d vs))
       \<and> t_severity_level (triage xs ft d vs) \<le> t_severity_level (triage ys ft d vs)"
proof
  have sub: "set xs \<subseteq> set ys" using assms by auto
  have le: "calculate_symptom_score (set xs) \<le> calculate_symptom_score (set ys)"
    by (rule calculate_symptom_score_mono [OF _ sub]) simp
  show "total_score (t_score_breakdown (triage xs ft d vs))
           \<le> total_score (t_score_breakdown (triage ys ft d vs))"
    unfolding triage_total_score Let_def by (rule boosted_score_mono [OF le])
  show "t_severity_level (triage xs ft d vs) \<le> t_severity_level (triage ys ft d vs)"
  proof (cases "set ys \<inter> RED_FLAGS = {}")
    case False
    then have "fst (compute_severity (set ys) vs) = 3"
      by (simp add: compute_severity_red_flag)
    then show ?thesis
      using triage_uses_compute_severity [of xs ft d vs] triage_uses_compute_severity [of ys ft d vs]
        compute_severity_le3 [of "set xs" vs] by simp
  next
    case True
    with sub have nx: "set xs \<inter> RED_FLAGS = {}" by auto
    have "map_score_to_severity
            (calculate_symptom_score (set xs)
              + (if stress_bonus_applies (calculate_symptom_score (set xs)) vs then 1 else 0))
          \<le> map_score_to_severity
            (calculate_symptom_score (set ys)
              + (if stress_bonus_applies (calculate_symptom_score (set ys)) vs then 1 else 0))"
      using boosted_score_mono [OF le, of vs] calculate_symptom_score_nonneg [of "set xs"]
      by (intro map_score_to_severity_mono) auto
    then show ?thesis
      by (simp only: triage_uses_compute_severity compute_severity_fst_no_red_flag [OF nx]
          compute_severity_fst_no_red_flag [OF True])
  qed
qed

theorem triage_severity_rule_witness:
  "t_severity_level (triage [''unconscious''] None None None) = 3
   \<and> t_escalate_human (triage [''unconscious''] None None None)
   \<and> t_severity_level (triage [''fever'', ''headache''] None None (Some 0.9)) = 2
   \<and> \<not> t_escalate_human (triage [''fever'', ''headache''] None None (Some 0.9))"
proof -
  have rf: "set [''unconscious''] \<inter> RED_FLAGS \<noteq> {}"
    by (simp add: RED_FLAGS_def)
  have nrf: "set [''fever'', ''headache''] \<inter> RED_FLAGS = {}"
    by (simp add: RED_FLAGS_def)
  have base: "(\<Sum>s \<in> set [''fever'', ''headache'']. SYMPTOM_POINTS_get s) = 3"
    by (simp add: SYMPTOM_POINTS_get_def SYMPTOM_POINTS_def)
  show ?thesis
    using triage_severity_rule [of "[''unconscious'']" None None None]
      triage_severity_rule [of "[''fever'', ''headache'']" None None "Some 0.9"]
      rf nrf base
    by (simp add: Let_def)
qed

theorem triage_monotone_witness:
  "set [''headache'', ''fever''] = insert ''headache'' (set [''fever''])
   \<and> total_score (t_score_breakdown (triage [''fever''] None None None)) = 2
   \<and> total_score (t_score_breakdown (triage [''headache'', ''fever''] None None None)) = 3
   \<and> total_score (t_score_breakdown (triage [''fever''] None None None))
        \<le> total_score (t_score_breakdown (triage [''headache'', ''fever''] None None None))
   \<and> t_severity_level (triage [''fever''] None None None)
        \<le> t_severity_level (triage [''headache'', ''fever''] None None None)"
proof -
  have h: "set [''headache'', ''fever''] = insert ''headache'' (set [''fever''])"
    by simp
  have a: "total_score (t_score_breakdown (triage [''fever''] None None None)) = 2"
    by (simp add: triage_total_score calculate_symptom_score_def stress_bonus_applies_def
        SYMPTOM_POINTS_get_def SYMPTOM_POINTS_def)
  have b: "total_score (t_score_breakdown (triage [''headache'', ''fever''] None None None)) = 3"
    by (simp add: triage_total_score calculate_symptom_score_def stress_bonus_applies_def
        SYMPTOM_POINTS_get_def SYMPTOM_POINTS_def)
  show ?thesis
    using triage_monotone [OF h, of None None None] h a b by simp
qed

theorem triage_insufficient_information_witness:
  "triage [] (Some ''  '') (Some 5) None =
     \<lparr> t_category = ''other_unclear'', t_severity_level = 0, t_escalate_human = False,
       t_confidence = 0, t_followup_questions = FOLLOWUP_QUESTIONS,
       t_score_breakdown = \<lparr> symptom_score = 0, voice_bonus = 0, total_score = 0,
          red_flag_detected = False, duration_minutes = Some 5 \<rparr> \<rparr>"
proof -
  have h: "\<forall>c \<in> set (or_empty (Some ''  '')). isspace c"
    by (simp add: or_empty_def isspace_def)
  show ?thesis
    using triage_insufficient_information [OF refl h, of "Some 5" None] by simp
qed

section \<open>Properties of the medic matcher\<close>

lemma set_insert_desc: "set (insert_desc key x ys) = insert x (set ys)"
  by (induction ys) auto

lemma set_sort_desc: "set (sort_desc key xs) = set xs"
  by (induction xs) (simp_all add: sort_desc_def set_insert_desc)

lemma sort_desc_Nil_iff: "sort_desc key xs = [] \<longleftrightarrow> xs = []"
  using set_sort_desc [of key xs] by (metis set_empty)

lemma bind_err_Inr_iff:
  "bind_err m f = Inr y \<longleftrightarrow> (\<exists>x. m = Inr x \<and> f x = Inr y)"
  by (cases m) (simp_all add: bind_err_def)

lemma score_all_Inr:
  "score_all env ms c l s md = Inr scs \<Longrightarrow>
     map fst scs = ms
     \<and> (\<forall>p \<in> set scs. calculate_match_score env (fst p) c l s md = Inr (snd p))"
  by (induction ms arbitrary: scs) (auto split: sum.splits)

lemma score_all_total:
  "(\<forall>m \<in> set ms. \<exists>sd. calculate_match_score env m c l s md = Inr sd) \<Longrightarrow>
     \<exists>scs. score_all env ms c l s md = Inr scs"
  by (induction ms) (auto split: sum.splits)

lemma score_all_error:
  "score_all env ms c l s md = Inl e \<Longrightarrow>
     \<exists>m \<in> set ms. calculate_match_score env m c l s md = Inl e"
  by (induction ms) (auto split: sum.splits)


lemma find_best_match_ground_only:
  "do_response_mode d = ''ground_only'' \<Longrightarrow>
   fst (find_best_match self env clock d t loc seed) =
     Inr \<lparr> assigned_medic = None,
           reasoning = Reason_text ''Ground ambulance only, no aerial medic needed'',
           match_time_seconds = py_round (fsub (Fin (snd clock)) (Fin (fst clock))) 3,
           result_status = None, match_score = None, match_breakdown = None,
           alternatives = None, all_medics = None, patient_location = None \<rparr>"
  by (simp add: find_best_match_def Let_def split: prod.splits)

lemma find_best_match_none_available:
  "do_response_mode d \<noteq> ''ground_only'' \<Longrightarrow> get_available_medics (db self) = [] \<Longrightarrow>
   fst (find_best_match self env clock d t loc seed) =
     Inr \<lparr> assigned_medic = None,
           reasoning = Reason_text ''No medics currently available'',
           match_time_seconds = py_round (fsub (Fin (snd clock)) (Fin (fst clock))) 3,
           result_status = Some ''error'', match_score = None, match_breakdown = None,
           alternatives = None, all_medics = None, patient_location = None \<rparr>"
  by (simp add: find_best_match_def Let_def split: prod.splits)

lemma find_best_match_error:
  assumes "do_response_mode d \<noteq> ''ground_only''"
    and "get_available_medics (db self) \<noteq> []"
    and "score_all env (get_available_medics (db self)) (to_category t)
               (derive_location env loc seed) (to_severity_level t)
               (transport_mode (do_response_mode d)) = Inl e"
  shows "fst (find_best_match self env clock d t loc seed) = Inl e"
  using assms by (simp add: find_best_match_def Let_def split: prod.splits)

lemma find_best_match_scored:
  assumes "do_response_mode d \<noteq> ''ground_only''"
    and "get_available_medics (db self) \<noteq> []"
    and "score_all env (get_available_medics (db self)) (to_category t)
               (derive_location env loc seed) (to_severity_level t)
               (transport_mode (do_response_mode d)) = Inr unsorted"
    and "sort_desc (\<lambda>x. composite_score (snd x)) unsorted = (bm, bs) # others"
  shows "\<exists>r am. fst (find_best_match self env clock d t loc seed) = Inr r
           \<and> assigned_medic r = Some am \<and> am_id am = m_id bm
           \<and> match_score r = Some (composite_score bs)
           \<and> result_status r = Some ''success''
           \<and> (\<exists>items. reasoning r = Reason_list items)"
  using assms
  by (simp add: find_best_match_def Let_def split: prod.splits)


lemma cert_score_table_dom:
  assumes "c \<in> set certifications"
  shows "\<exists>v. map_of cert_score_table c = Some v"
proof -
  from assms have "c \<in> fst ` set cert_score_table"
    by (simp add: certifications_def cert_score_table_def)
  then have "map_of cert_score_table c \<noteq> None"
    by (simp add: map_of_eq_None_iff)
  then show ?thesis by blast
qed

lemma generate_mock_medics_certified: "certified (generate_mock_medics draws)"
proof -
  have "\<And>i. certifications ! (i mod length certifications) \<in> set certifications"
    by (rule nth_mem) (simp add: certifications_def)
  then show ?thesis
    by (auto simp add: certified_def generate_mock_medics_def mock_medic_def Let_def)
qed

lemma set_first_status_certified:
  "certified ms \<Longrightarrow> certified (set_first_status i st ms)"
  by (induction ms) (auto simp add: certified_def)

lemma reachable_db_certified: "reachable_db env d \<Longrightarrow> certified (medics d)"
proof (induction rule: reachable_db.induct)
  case reachable_init
  show ?case by (simp add: MedicDatabase_init_def generate_mock_medics_certified)
next
  case (reachable_update d i st)
  then show ?case by (simp add: update_status_def set_first_status_certified)
qed

lemma available_certified:
  "certified (medics d) \<Longrightarrow> certified (get_available_medics d)"
  by (simp add: certified_def get_available_medics_def)

lemma py_pow_error:
  "py_pow f v w = Inl e \<Longrightarrow> e = OverflowError \<or> e = TypeError"
  by (auto simp add: py_pow_def split: float64.splits if_splits)

lemma int_truediv_by_error: "int_truediv_by a c = Inl e \<Longrightarrow> e = OverflowError"
  by (auto simp add: int_truediv_by_def split: float64.splits)

lemma bind_err_Inl_iff:
  "bind_err m f = Inl e \<longleftrightarrow> m = Inl e \<or> (\<exists>x. m = Inr x \<and> f x = Inl e)"
  by (cases m) (simp_all add: bind_err_def)

lemma calculate_distance_error:
  "calculate_distance env g l = Inl e \<Longrightarrow> e = OverflowError \<or> e = TypeError"
  by (auto simp add: calculate_distance_def Let_def bind_err_Inl_iff split: prod.splits
      dest: py_pow_error)

lemma calculate_match_score_error:
  assumes "calculate_match_score env m c l s md = Inl e"
  shows "e = OverflowError \<or> e = TypeError
       \<or> (e = KeyError \<and> map_of cert_score_table (certification_level m) = None)"
  using assms
  by (auto simp add: calculate_match_score_def Let_def bind_err_Inl_iff split: option.splits
      dest: calculate_distance_error int_truediv_by_error)

lemma find_best_match_outcome:
  assumes mode: "do_response_mode d \<noteq> ''ground_only''"
    and avail: "get_available_medics (db self) \<noteq> []"
  shows "(\<exists>e m. fst (find_best_match self env clock d t loc seed) = Inl e
            \<and> m \<in> set (get_available_medics (db self))
            \<and> calculate_match_score env m (to_category t) (derive_location env loc seed)
                 (to_severity_level t) (transport_mode (do_response_mode d)) = Inl e)
       \<or> (\<exists>r am best sd items.
            fst (find_best_match self env clock d t loc seed) = Inr r
          \<and> assigned_medic r = Some am
          \<and> result_status r = Some ''success''
          \<and> reasoning r = Reason_list items
          \<and> best \<in> set (get_available_medics (db self))
          \<and> calculate_match_score env best (to_category t) (derive_location env loc seed)
               (to_severity_level t) (transport_mode (do_response_mode d)) = Inr sd
          \<and> am_id am = m_id best
          \<and> match_score r = Some (composite_score sd))"
proof -
  let ?av = "get_available_medics (db self)"
  let ?sc = "score_all env ?av (to_category t) (derive_location env loc seed)
               (to_severity_level t) (transport_mode (do_response_mode d))"
  show ?thesis
  proof (cases ?sc)
    case (Inl e)
    from score_all_error [OF Inl] find_best_match_error [OF mode avail Inl, of clock]
    show ?thesis by blast
  next
    case (Inr unsorted)
    from score_all_Inr [OF Inr] have fsts: "map fst unsorted = ?av"
      and each: "\<forall>p \<in> set unsorted. calculate_match_score env (fst p) (to_category t)
          (derive_location env loc seed) (to_severity_level t)
          (transport_mode (do_response_mode d)) = Inr (snd p)" by auto
    from fsts avail have "unsorted \<noteq> []" by auto
    then have "sort_desc (\<lambda>x. composite_score (snd x)) unsorted \<noteq> []"
      by (simp add: sort_desc_Nil_iff)
    then obtain bm bs others where
      srt: "sort_desc (\<lambda>x. composite_score (snd x)) unsorted = (bm, bs) # others"
      by (cases "sort_desc (\<lambda>x. composite_score (snd x)) unsorted") auto
    then have "(bm, bs) \<in> set (sort_desc (\<lambda>x. composite_score (snd x)) unsorted)" by simp
    then have mem: "(bm, bs) \<in> set unsorted" by (simp add: set_sort_desc)
    from mem each have best_sd: "calculate_match_score env bm (to_category t)
          (derive_location env loc seed) (to_severity_level t)
          (transport_mode (do_response_mode d)) = Inr bs" by force
    from mem have "bm \<in> set (map fst unsorted)" by force
    with fsts have best_in: "bm \<in> set ?av" by simp
    from find_best_match_scored [OF mode avail Inr srt, of clock] best_sd best_in
    show ?thesis by blast
  qed
qed


lemma get_matcher_cases:
  "get_matcher env g = (case g of None \<Rightarrow> MedicMatcher_init env | Some m \<Rightarrow> m,
                        Some (case g of None \<Rightarrow> MedicMatcher_init env | Some m \<Rightarrow> m))"
  by (simp add: get_matcher_def Let_def split: option.splits)




subsection \<open>The concrete environment evaluated\<close>

lemma centre_lat: "float_literal 24.7136 = Fin (1739064996109117 / 70368744177664)"
  unfolding float_literal_def
  by (subst round64_eval [where e = 4]) (simp_all add: round_half_even_def Let_def)

lemma centre_lon: "float_literal 46.6753 = Fin (6568964490231441 / 140737488355328)"
  unfolding float_literal_def
  by (subst round64_eval [where e = 5]) (simp_all add: round_half_even_def Let_def)

lemma round64_centre_lat:
  "round64 (1739064996109117 / 70368744177664) = Fin (1739064996109117 / 70368744177664)"
  by (subst round64_eval [where e = 4]) (simp_all add: round_half_even_def Let_def)

lemma round64_centre_lon:
  "round64 (6568964490231441 / 140737488355328) = Fin (6568964490231441 / 140737488355328)"
  by (subst round64_eval [where e = 5]) (simp_all add: round_half_even_def Let_def)

lemma RIYADH_CENTER_eq:
  "RIYADH_CENTER =
     (Fin (1739064996109117 / 70368744177664), Fin (6568964490231441 / 140737488355328))"
  unfolding RIYADH_CENTER_def centre_lat centre_lon ..

lemma fadd_zero_centre:
  "fadd (Fin (1739064996109117 / 70368744177664)) (Fin 0)
     = Fin (1739064996109117 / 70368744177664)"
  "fadd (Fin (6568964490231441 / 140737488355328)) (Fin 0)
     = Fin (6568964490231441 / 140737488355328)"
  by (simp_all add: round64_centre_lat round64_centre_lon)

lemma example_location:
  "derive_location example_env None seed =
     (Fin (1739064996109117 / 70368744177664), Fin (6568964490231441 / 140737488355328))"
  unfolding derive_location_def example_env_def RIYADH_CENTER_eq
  by (simp add: fadd_zero_centre del: fadd.simps)

lemma round_centre_lat:
  "py_round (Fin (1739064996109117 / 70368744177664)) 6 = Fin (1739064996109117 / 70368744177664)"
proof -
  have "round_half_even (1739064996109117 / 70368744177664 * 10 ^ 6) = 24713600"
    by (simp add: round_half_even_def Let_def)
  then have "py_round (Fin (1739064996109117 / 70368744177664)) 6 = round64 (24713600 / 10 ^ 6)"
    by simp
  also have "\<dots> = Fin (1739064996109117 / 70368744177664)"
    by (subst round64_eval [where e = 4]) (simp_all add: round_half_even_def Let_def)
  finally show ?thesis .
qed

lemma round_centre_lon:
  "py_round (Fin (6568964490231441 / 140737488355328)) 6 = Fin (6568964490231441 / 140737488355328)"
proof -
  have "round_half_even (6568964490231441 / 140737488355328 * 10 ^ 6) = 46675300"
    by (simp add: round_half_even_def Let_def)
  then have "py_round (Fin (6568964490231441 / 140737488355328)) 6 = round64 (46675300 / 10 ^ 6)"
    by simp
  also have "\<dots> = Fin (6568964490231441 / 140737488355328)"
    by (subst round64_eval [where e = 5]) (simp_all add: round_half_even_def Let_def)
  finally show ?thesis .
qed



lemma generated_medic:
  assumes "m \<in> set (generate_mock_medics draws)"
  shows "\<exists>i nm. m = mock_medic draws i nm"
proof -
  from assms obtain p where "m = (\<lambda>(i, nm). mock_medic draws i nm) p"
    unfolding generate_mock_medics_def by auto
  then show ?thesis by (cases p) auto
qed

lemma example_mock_medic:
  "gps_location (mock_medic (\<lambda>i. example_draws) i nm) =
      (Fin (1739064996109117 / 70368744177664), Fin (6568964490231441 / 140737488355328))"
  "current_load (mock_medic (\<lambda>i. example_draws) i nm) = 37"
  "status (mock_medic (\<lambda>i. example_draws) i nm) = ''available''"
  unfolding mock_medic_def Let_def RIYADH_CENTER_eq fst_conv snd_conv example_draws_def
  by (simp_all add: fadd_zero_centre round_centre_lat round_centre_lon
      del: fadd.simps py_round.simps)

subsection \<open>The short circuit of \<open>find_best_match\<close>\<close>

text \<open>
  Claim C10, as amended. \<open>find_best_match\<close> returns the no-medic-needed result exactly when
  \<open>response_mode\<close> is the string \<open>ground_only\<close>. For every other value (\<open>AMBULANCE\<close> included)
  it goes on to the scoring and, when the roster is one that the matcher can hold, at
  least one medic is available and no score computation raises \<open>OverflowError\<close> or
  \<open>TypeError\<close> (which the powers and the load quotient raise on values out of range), it
  returns an assigned medic, who is one of the available ones.
\<close>

theorem find_best_match_short_circuit:
  "((\<exists>r. fst (find_best_match self env clock d t loc seed) = Inr r
        \<and> reasoning r = Reason_text ''Ground ambulance only, no aerial medic needed'')
      \<longleftrightarrow> do_response_mode d = ''ground_only'')
   \<and> (do_response_mode d \<noteq> ''ground_only'' \<and> reachable_db env (db self)
        \<and> get_available_medics (db self) \<noteq> []
        \<and> (\<forall>m \<in> set (get_available_medics (db self)).
              calculate_match_score env m (to_category t) (derive_location env loc seed)
                (to_severity_level t) (transport_mode (do_response_mode d))
                \<notin> {Inl OverflowError, Inl TypeError})
      \<longrightarrow> (\<exists>r am. fst (find_best_match self env clock d t loc seed) = Inr r
             \<and> assigned_medic r = Some am
             \<and> result_status r = Some ''success''
             \<and> (\<exists>m \<in> set (get_available_medics (db self)). am_id am = m_id m)))"
proof (intro conjI iffI impI)
  assume "do_response_mode d = ''ground_only''"
  from find_best_match_ground_only [OF this, of self env clock t loc seed]
  show "\<exists>r. fst (find_best_match self env clock d t loc seed) = Inr r
        \<and> reasoning r = Reason_text ''Ground ambulance only, no aerial medic needed''"
    by simp
next
  assume ex: "\<exists>r. fst (find_best_match self env clock d t loc seed) = Inr r
        \<and> reasoning r = Reason_text ''Ground ambulance only, no aerial medic needed''"
  show "do_response_mode d = ''ground_only''"
  proof (rule ccontr)
    assume mode: "do_response_mode d \<noteq> ''ground_only''"
    show False
    proof (cases "get_available_medics (db self) = []")
      case True
      from find_best_match_none_available [OF mode True, of env clock t loc seed] ex
      show False by auto
    next
      case False
      from find_best_match_outcome [OF mode False, of env clock t loc seed] ex
      show False by auto
    qed
  qed
next
  assume a: "do_response_mode d \<noteq> ''ground_only'' \<and> reachable_db env (db self)
        \<and> get_available_medics (db self) \<noteq> []
        \<and> (\<forall>m \<in> set (get_available_medics (db self)).
              calculate_match_score env m (to_category t) (derive_location env loc seed)
                (to_severity_level t) (transport_mode (do_response_mode d))
                \<notin> {Inl OverflowError, Inl TypeError})"
  then have cert: "certified (get_available_medics (db self))"
    using available_certified reachable_db_certified by blast
  have no_err: "\<not> (\<exists>e m. m \<in> set (get_available_medics (db self))
            \<and> calculate_match_score env m (to_category t) (derive_location env loc seed)
                 (to_severity_level t) (transport_mode (do_response_mode d)) = Inl e)"
  proof
    assume "\<exists>e m. m \<in> set (get_available_medics (db self))
            \<and> calculate_match_score env m (to_category t) (derive_location env loc seed)
                 (to_severity_level t) (transport_mode (do_response_mode d)) = Inl e"
    then obtain e m where m: "m \<in> set (get_available_medics (db self))"
      and e: "calculate_match_score env m (to_category t) (derive_location env loc seed)
                 (to_severity_level t) (transport_mode (do_response_mode d)) = Inl e" by blast
    from calculate_match_score_error [OF e] a m e
    have "map_of cert_score_table (certification_level m) = None" by auto
    moreover from cert m have "certification_level m \<in> set certifications"
      by (simp add: certified_def)
    ultimately show False using cert_score_table_dom by fastforce
  qed
  from a have mode: "do_response_mode d \<noteq> ''ground_only''"
    and avail: "get_available_medics (db self) \<noteq> []" by auto
  from find_best_match_outcome [OF mode avail, of env clock t loc seed] no_err
  show "\<exists>r am. fst (find_best_match self env clock d t loc seed) = Inr r
             \<and> assigned_medic r = Some am
             \<and> result_status r = Some ''success''
             \<and> (\<exists>m \<in> set (get_available_medics (db self)). am_id am = m_id m)"
    by blast
qed

end
